theory Spec2Isabelle
  imports Complex_Main
begin

section \<open>Python string primitives\<close>

text \<open>
  A Python \<open>str\<close> is modelled as a \<open>string\<close> whose characters are the code points
  below 256, one \<open>char\<close> per code point. The functions below are the \<open>str\<close> methods the
  package calls, restricted to that range.
\<close>

definition backslash :: char where
  "backslash = CHR 0x5C"

definition newline :: char where
  "newline = CHR 0x0A"

text \<open>\<open>str.isspace\<close> on one character: the code points below 256 that Python strips.\<close>

definition isspace :: "char \<Rightarrow> bool" where
  "isspace c = (let n = (of_char c :: nat) in
     (9 \<le> n \<and> n \<le> 13) \<or> (28 \<le> n \<and> n \<le> 32) \<or> n = 133 \<or> n = 160)"

definition strip :: "string \<Rightarrow> string" where
  "strip s = rev (dropWhile isspace (rev (dropWhile isspace s)))"

text \<open>\<open>str.lower\<close>: ASCII capitals and the Latin-1 capitals (all of 0xC0..0xDE but 0xD7).\<close>

definition lower_char :: "char \<Rightarrow> char" where
  "lower_char c = (let n = (of_char c :: nat) in
     if (65 \<le> n \<and> n \<le> 90) \<or> (192 \<le> n \<and> n \<le> 222 \<and> n \<noteq> 215)
     then char_of (n + 32) else c)"

definition lower :: "string \<Rightarrow> string" where
  "lower s = map lower_char s"

text \<open>\<open>s.startswith(p)\<close>.\<close>

fun startswith :: "string \<Rightarrow> string \<Rightarrow> bool" where
  "startswith s [] = True"
| "startswith [] (p # ps) = False"
| "startswith (c # cs) (p # ps) = (c = p \<and> startswith cs ps)"

text \<open>\<open>p in s\<close> for strings: \<open>p\<close> occurs as a contiguous run of \<open>s\<close>.\<close>

fun contains :: "string \<Rightarrow> string \<Rightarrow> bool" where
  "contains [] p = (p = [])"
| "contains (c # cs) p = (startswith (c # cs) p \<or> contains cs p)"

text \<open>
  \<open>s.replace(old, new)\<close>: every occurrence of \<open>old\<close>, scanning from the left, occurrences
  not overlapping. With an empty \<open>old\<close> Python puts \<open>new\<close> before every character and at
  the end.
\<close>

function replace :: "string \<Rightarrow> string \<Rightarrow> string \<Rightarrow> string" where
  "replace [] old new = (if old = [] then new else [])"
| "replace (c # cs) old new =
     (if old = [] then new @ c # replace cs old new
      else if startswith (c # cs) old
        then new @ replace (drop (length old) (c # cs)) old new
      else c # replace cs old new)"
  by pat_completeness auto
termination
  by (relation "measure (\<lambda>(s, old, new). length s)") auto

text \<open>
  \<open>s.split(sep, 1)\<close> when \<open>sep\<close> occurs in \<open>s\<close>: the text before the first occurrence and
  the text after it; \<open>None\<close> when \<open>sep\<close> does not occur (Python then returns a one-element
  list).
\<close>

fun split_once :: "string \<Rightarrow> string \<Rightarrow> (string \<times> string) option" where
  "split_once [] sep = (if sep = [] then Some ([], []) else None)"
| "split_once (c # cs) sep =
     (if startswith (c # cs) sep then Some ([], drop (length sep) (c # cs))
      else (case split_once cs sep of
              None \<Rightarrow> None
            | Some (before, after) \<Rightarrow> Some (c # before, after)))"

section \<open>Errors\<close>

text \<open>
  The exceptions the package raises or lets through. \<open>UnknownFilterType\<close>,
  \<open>InvalidReplacementPattern\<close> and \<open>ValidationError\<close> are \<open>ValueError\<close>s (the last one
  pydantic's); \<open>ReError\<close> is \<open>re.error\<close>, which is not a \<open>ValueError\<close>. \<open>NotModelled\<close> is
  no Python exception: it marks a regular expression or a call that lies outside the
  fragment of \<open>re\<close> embedded below, where this development says nothing about what Python
  does.
\<close>

datatype error =
    UnknownFilterType
  | InvalidReplacementPattern
  | ValidationError
  | AttributeError
  | ReError
  | NotModelled

fun is_ValueError :: "error \<Rightarrow> bool" where
  "is_ValueError UnknownFilterType = True"
| "is_ValueError InvalidReplacementPattern = True"
| "is_ValueError ValidationError = True"
| "is_ValueError AttributeError = False"
| "is_ValueError ReError = False"
| "is_ValueError NotModelled = False"

section \<open>The fragment of Python's re module the package relies on\<close>

text \<open>
  \<open>re.escape\<close> (Python 3.7 and later; the package needs 3.11 for \<open>StrEnum\<close>): a backslash
  goes before each of \<open>( ) [ ] { } ? * + - | ^ $ \ . & ~ #\<close>, space, tab, newline, carriage
  return, vertical tab and form feed. The underscore is not among them.
\<close>

definition re_special :: "char \<Rightarrow> bool" where
  "re_special c = (c \<in> set (''()[]{}?*+-|^$.&~# '' @
     [backslash, CHR 0x09, CHR 0x0A, CHR 0x0D, CHR 0x0B, CHR 0x0C]))"

definition re_escape :: "string \<Rightarrow> string" where
  "re_escape s = concat (map (\<lambda>c. if re_special c then [backslash, c] else [c]) s)"

text \<open>
  Compiled patterns. The fragment: literal characters, escaped punctuation, \<open>.\<close>, the
  anchors \<open>^\<close> and \<open>$\<close> (no \<open>MULTILINE\<close>), alternation, capturing groups, and the greedy
  quantifiers \<open>*\<close>, \<open>+\<close>, \<open>?\<close>. \<open>x+\<close> is compiled to \<open>x\<close> followed by \<open>x*\<close>.
\<close>

datatype rx =
    Chr char
  | Dot
  | Bol
  | Eol
  | Eps
  | Seq rx rx
  | Alt rx rx
  | Star rx
  | Opt rx
  | Grp nat rx

text \<open>
  The parser keeps a stack of open groups; a frame holds the number of its group, the
  alternatives closed so far (last first) and the items of the current alternative (last
  first).
\<close>

type_synonym frame = "nat \<times> rx list \<times> rx list"

definition mk_seq :: "rx list \<Rightarrow> rx" where
  "mk_seq items = foldr Seq items Eps"

fun mk_alt :: "rx list \<Rightarrow> rx" where
  "mk_alt [] = Eps"
| "mk_alt [b] = b"
| "mk_alt (b # bs) = Alt b (mk_alt bs)"

definition close_frame :: "rx list \<Rightarrow> rx list \<Rightarrow> rx" where
  "close_frame alts cur = mk_alt (rev (mk_seq (rev cur) # alts))"

fun nullable :: "rx \<Rightarrow> bool" where
  "nullable (Chr c) = False"
| "nullable Dot = False"
| "nullable Bol = True"
| "nullable Eol = True"
| "nullable Eps = True"
| "nullable (Seq a b) = (nullable a \<and> nullable b)"
| "nullable (Alt a b) = (nullable a \<or> nullable b)"
| "nullable (Star a) = True"
| "nullable (Opt a) = True"
| "nullable (Grp n a) = nullable a"

definition ascii_alnum :: "char \<Rightarrow> bool" where
  "ascii_alnum c = (let n = (of_char c :: nat) in
     (48 \<le> n \<and> n \<le> 57) \<or> (65 \<le> n \<and> n \<le> 90) \<or> (97 \<le> n \<and> n \<le> 122))"

datatype quant = QStar | QPlus | QOpt

text \<open>
  A quantifier applies to the last item. Python answers "nothing to repeat" when there is
  none or it is an anchor, and "multiple repeat" for \<open>*\<close> after a quantifier; \<open>?\<close> or \<open>+\<close>
  after a quantifier makes it lazy or possessive, and repeating an item that can match the
  empty string has its own rules for groups: both are left out of the fragment.
\<close>

fun quantify :: "quant \<Rightarrow> rx list \<Rightarrow> error + rx list" where
  "quantify q [] = Inl ReError"
| "quantify q (Bol # cur) = Inl ReError"
| "quantify q (Eol # cur) = Inl ReError"
| "quantify q (Star a # cur) = (if q = QStar then Inl ReError else Inl NotModelled)"
| "quantify q (Opt a # cur) = (if q = QStar then Inl ReError else Inl NotModelled)"
| "quantify q (Seq a b # cur) = (if q = QStar then Inl ReError else Inl NotModelled)"
| "quantify q (a # cur) =
     (case q of
        QOpt \<Rightarrow> Inr (Opt a # cur)
      | QStar \<Rightarrow> if nullable a then Inl NotModelled else Inr (Star a # cur)
      | QPlus \<Rightarrow> if nullable a then Inl NotModelled else Inr (Seq a (Star a) # cur))"

fun parse_rx :: "string \<Rightarrow> nat \<Rightarrow> frame list \<Rightarrow> error + (rx \<times> nat)" where
  "parse_rx [] n [] = Inl ReError"
| "parse_rx [] n [(g, alts, cur)] = Inr (close_frame alts cur, n)"
| "parse_rx [] n (f # f' # st) = Inl ReError"
| "parse_rx (c # cs) n [] = Inl ReError"
| "parse_rx (c # cs) n ((g, alts, cur) # st) =
     (if c = backslash then
        (case cs of
           [] \<Rightarrow> Inl ReError
         | x # cs' \<Rightarrow>
             if ascii_alnum x then Inl NotModelled
             else parse_rx cs' n ((g, alts, Chr x # cur) # st))
      else if c = CHR ''.'' then parse_rx cs n ((g, alts, Dot # cur) # st)
      else if c = CHR ''^'' then parse_rx cs n ((g, alts, Bol # cur) # st)
      else if c = CHR ''$'' then parse_rx cs n ((g, alts, Eol # cur) # st)
      else if c = CHR ''*'' \<or> c = CHR ''+'' \<or> c = CHR ''?'' then
        (case quantify (if c = CHR ''*'' then QStar else if c = CHR ''+'' then QPlus else QOpt) cur of
           Inl e \<Rightarrow> Inl e
         | Inr cur' \<Rightarrow> parse_rx cs n ((g, alts, cur') # st))
      else if c = CHR ''|'' then parse_rx cs n ((g, mk_seq (rev cur) # alts, []) # st)
      else if c = CHR ''('' then
        (if startswith cs ''?'' then Inl NotModelled
         else parse_rx cs (Suc n) ((Suc n, [], []) # (g, alts, cur) # st))
      else if c = CHR '')'' then
        (case st of
           [] \<Rightarrow> Inl ReError
         | (g', alts', cur') # st' \<Rightarrow>
             parse_rx cs n ((g', alts', Grp g (close_frame alts cur) # cur') # st'))
      else if c = CHR ''['' \<or> c = CHR ''{'' then Inl NotModelled
      else parse_rx cs n ((g, alts, Chr c # cur) # st))"

text \<open>
  \<open>re.compile(pattern)\<close> with no flags: the compiled pattern and its number of groups.
  \<open>pattern_cache.get_compiled_pattern\<close> memoises this function with \<open>lru_cache\<close>; the cache
  changes no result, so the embedding calls \<open>re_compile\<close> in its place.
\<close>

definition re_compile :: "string \<Rightarrow> error + (rx \<times> nat)" where
  "re_compile pattern = parse_rx pattern 0 [(0, [], [])]"

text \<open>
  Matching is backtracking: \<open>ms r s\<close> lists the states in which \<open>r\<close> can end when started
  in state \<open>s\<close>, in the order Python's engine tries them. A state is the position, the
  text from there on, and the groups captured so far (latest first).
\<close>

type_synonym mstate = "nat \<times> string \<times> (nat \<times> string) list"

fun ms :: "rx \<Rightarrow> mstate \<Rightarrow> mstate list" where
  "ms (Chr c) (p, rest, caps) =
     (case rest of [] \<Rightarrow> [] | x # xs \<Rightarrow> if x = c then [(Suc p, xs, caps)] else [])"
| "ms Dot (p, rest, caps) =
     (case rest of [] \<Rightarrow> [] | x # xs \<Rightarrow> if x \<noteq> newline then [(Suc p, xs, caps)] else [])"
| "ms Bol (p, rest, caps) = (if p = 0 then [(p, rest, caps)] else [])"
| "ms Eol (p, rest, caps) = (if rest = [] \<or> rest = [newline] then [(p, rest, caps)] else [])"
| "ms Eps s = [s]"
| "ms (Seq a b) s = concat (map (ms b) (ms a s))"
| "ms (Alt a b) s = ms a s @ ms b s"
| "ms (Opt a) s = ms a s @ [s]"
| "ms (Star a) s =
     concat (map (\<lambda>s'. if length (fst (snd s')) < length (fst (snd s)) then ms (Star a) s' else [])
                 (ms a s)) @ [s]"
| "ms (Grp g a) (p, rest, caps) =
     map (\<lambda>(p', rest', caps'). (p', rest', (g, take (p' - p) rest) # caps')) (ms a (p, rest, caps))"

declare ms.simps(9) [simp del]

text \<open>
  One attempt at one position: the first way to match; with \<open>must_advance\<close> the first way
  that consumes something (after an empty match \<open>sub\<close> asks for that).
\<close>

definition attempt :: "rx \<Rightarrow> nat \<Rightarrow> string \<Rightarrow> bool \<Rightarrow> mstate option" where
  "attempt r pos rest must_advance =
     (case filter (\<lambda>(p', rest', caps'). \<not> must_advance \<or> pos < p') (ms r (pos, rest, [])) of
        [] \<Rightarrow> None
      | st # sts \<Rightarrow> Some st)"

text \<open>
  Searching tries every position from \<open>pos\<close> on; it returns the text skipped before the
  match, the position where the match begins and the state where it ends.
\<close>

fun search_from :: "rx \<Rightarrow> nat \<Rightarrow> string \<Rightarrow> bool \<Rightarrow> (string \<times> nat \<times> mstate) option" where
  "search_from r pos rest must_advance =
     (case attempt r pos rest must_advance of
        Some st \<Rightarrow> Some ([], pos, st)
      | None \<Rightarrow>
          (case rest of
             [] \<Rightarrow> None
           | c # cs \<Rightarrow>
               (case search_from r (Suc pos) cs False of
                  None \<Rightarrow> None
                | Some (skipped, b, st) \<Rightarrow> Some (c # skipped, b, st))))"

declare search_from.simps [simp del]

text \<open>\<open>bool(compiled.match(text))\<close> and \<open>bool(compiled.search(text))\<close>.\<close>

definition re_match :: "rx \<times> nat \<Rightarrow> string \<Rightarrow> bool" where
  "re_match cp text = (attempt (fst cp) 0 text False \<noteq> None)"

definition re_search :: "rx \<times> nat \<Rightarrow> string \<Rightarrow> bool" where
  "re_search cp text = (search_from (fst cp) 0 text False \<noteq> None)"

text \<open>
  Replacement templates: \<open>\1\<close> to \<open>\9\<close> refer to groups, \<open>\\\<close> is a backslash, the
  letter escapes of Python stand for their control characters, a backslash before any
  other character that is no letter or digit stays as it is.
\<close>

datatype titem = TLit char | TRef nat

definition digit_val :: "char \<Rightarrow> nat option" where
  "digit_val c = (let n = (of_char c :: nat) in if 48 \<le> n \<and> n \<le> 57 then Some (n - 48) else None)"

definition template_escape :: "char \<Rightarrow> char option" where
  "template_escape c =
     (if c = CHR ''a'' then Some (CHR 0x07)
      else if c = CHR ''b'' then Some (CHR 0x08)
      else if c = CHR ''f'' then Some (CHR 0x0C)
      else if c = CHR ''n'' then Some (CHR 0x0A)
      else if c = CHR ''r'' then Some (CHR 0x0D)
      else if c = CHR ''t'' then Some (CHR 0x09)
      else if c = CHR ''v'' then Some (CHR 0x0B)
      else if c = backslash then Some backslash
      else None)"

fun parse_template :: "string \<Rightarrow> nat \<Rightarrow> error + titem list" where
  "parse_template [] groups = Inr []"
| "parse_template (c # cs) groups =
     (if c \<noteq> backslash then
        (case parse_template cs groups of Inl e \<Rightarrow> Inl e | Inr ts \<Rightarrow> Inr (TLit c # ts))
      else
        (case cs of
           [] \<Rightarrow> Inl ReError
         | x # cs' \<Rightarrow>
             (case digit_val x of
                Some d \<Rightarrow>
                  if d = 0 \<or> (case cs' of [] \<Rightarrow> False | y # ys \<Rightarrow> digit_val y \<noteq> None)
                    then Inl NotModelled
                  else if groups < d then Inl ReError
                  else (case parse_template cs' groups of
                          Inl e \<Rightarrow> Inl e | Inr ts \<Rightarrow> Inr (TRef d # ts))
              | None \<Rightarrow>
                  (case template_escape x of
                     Some y \<Rightarrow>
                       (case parse_template cs' groups of
                          Inl e \<Rightarrow> Inl e | Inr ts \<Rightarrow> Inr (TLit y # ts))
                   | None \<Rightarrow>
                       if x = CHR ''g'' then Inl NotModelled
                       else if ascii_alnum x then Inl ReError
                       else (case parse_template cs' groups of
                               Inl e \<Rightarrow> Inl e
                             | Inr ts \<Rightarrow> Inr (TLit backslash # TLit x # ts))))))"

text \<open>A group that took no part in the match expands to the empty string.\<close>

fun expand :: "titem list \<Rightarrow> (nat \<times> string) list \<Rightarrow> string" where
  "expand [] caps = []"
| "expand (TLit c # ts) caps = c # expand ts caps"
| "expand (TRef g # ts) caps =
     (case map_of caps g of None \<Rightarrow> [] | Some s \<Rightarrow> s) @ expand ts caps"

text \<open>
  \<open>compiled.sub(repl, text)\<close> with the default \<open>count = 0\<close>: the loop searches again from
  the end of each match until no match is left, copying the text in between. After an
  empty match the next one must advance.
\<close>

function sub_loop :: "rx \<Rightarrow> titem list \<Rightarrow> nat \<Rightarrow> string \<Rightarrow> bool \<Rightarrow> string" where
  "sub_loop r tmpl pos rest must_advance =
     (case search_from r pos rest must_advance of
        None \<Rightarrow> rest
      | Some (skipped, b, (e, rest', caps)) \<Rightarrow>
          skipped @ expand tmpl caps @ sub_loop r tmpl e rest' (e = b))"
  by pat_completeness auto
termination
proof -
  have ms_pos: "fst s \<le> fst s' \<and> length (fst (snd s')) + (fst s' - fst s) = length (fst (snd s))"
    if "s' \<in> set (ms r s)" for r s s'
    using that
  proof (induction r s arbitrary: s' rule: ms.induct)
    case (1 c p rest caps)
    then show ?case by (auto split: list.splits if_splits)
  next
    case (2 p rest caps)
    then show ?case by (auto split: list.splits if_splits)
  next
    case (3 p rest caps)
    then show ?case by (auto split: if_splits)
  next
    case (4 p rest caps)
    then show ?case by (auto split: if_splits)
  next
    case (5 s)
    then show ?case by simp
  next
    case (6 a b s)
    from "6.prems" obtain m where m: "m \<in> set (ms a s)" and s': "s' \<in> set (ms b m)"
      by auto
    from "6.IH"(1)[OF m] "6.IH"(2)[OF m s'] show ?case by linarith
  next
    case (7 a b s)
    then have "s' \<in> set (ms a s) \<or> s' \<in> set (ms b s)" by simp
    with "7.IH" show ?case by blast
  next
    case (8 a s)
    from "8.prems" consider (body) "s' \<in> set (ms a s)" | (skip) "s' = s" by auto
    then show ?case
    proof cases
      case body
      from "8.IH"[OF body] show ?thesis .
    next
      case skip
      then show ?thesis by simp
    qed
  next
    case (9 a s)
    from "9.prems" have "s' \<in> set (concat (map (\<lambda>m. if length (fst (snd m)) < length (fst (snd s))
        then ms (Star a) m else []) (ms a s)) @ [s])"
      by (subst (asm) ms.simps(9))
    then consider (stop) "s' = s"
      | (iter) m where "m \<in> set (ms a s)" "length (fst (snd m)) < length (fst (snd s))"
          "s' \<in> set (ms (Star a) m)"
      by (auto split: if_splits)
    then show ?case
    proof cases
      case stop
      then show ?thesis by simp
    next
      case iter
      from "9.IH"(1)[OF iter(1)] "9.IH"(2)[OF iter(1) iter(2) iter(3)] show ?thesis by linarith
    qed
  next
    case (10 g a p rest caps)
    from "10.prems" obtain m where m: "m \<in> set (ms a (p, rest, caps))"
      and eq: "fst s' = fst m" "fst (snd s') = fst (snd m)"
      by auto
    from "10.IH"[OF m] eq show ?case by simp
  qed
  have attempt_pos:
    "pos \<le> p' \<and> length rest' + (p' - pos) = length rest \<and> (must \<longrightarrow> pos < p')"
    if "attempt r pos rest must = Some (p', rest', caps')" for r pos rest must p' rest' caps'
  proof -
    from that have mem: "(p', rest', caps') \<in> set (ms r (pos, rest, []))"
      and adv: "\<not> must \<or> pos < p'"
      by (auto simp: attempt_def filter_eq_Cons_iff split: list.splits)
    from ms_pos[OF mem] adv show ?thesis by simp
  qed
  have search_from_pos:
    "b = pos + length skipped \<and> b \<le> p' \<and> length rest' + (p' - pos) = length rest
       \<and> (must \<and> skipped = [] \<longrightarrow> pos < p')"
    if "search_from r pos rest must = Some (skipped, b, (p', rest', caps'))"
    for r pos rest must skipped b p' rest' caps'
    using that
  proof (induction rest arbitrary: pos must skipped)
    case Nil
    then have a: "attempt r pos [] must = Some (p', rest', caps')" and sk: "skipped = []" "b = pos"
      by (auto simp: search_from.simps split: option.splits)
    from attempt_pos[OF a] sk show ?case by simp
  next
    case (Cons c cs)
    show ?case
    proof (cases "attempt r pos (c # cs) must")
      case None
      with Cons.prems obtain sk where
        s: "search_from r (Suc pos) cs False = Some (sk, b, (p', rest', caps'))"
        and sk: "skipped = c # sk"
        by (subst (asm) search_from.simps) (auto split: option.splits)
      from Cons.IH[OF s] sk show ?thesis by auto
    next
      case (Some st)
      with Cons.prems have a: "attempt r pos (c # cs) must = Some (p', rest', caps')"
        and sk: "skipped = []" "b = pos"
        by (auto simp: search_from.simps)
      from attempt_pos[OF a] sk show ?thesis by simp
    qed
  qed
  show ?thesis
  proof (relation "measure (\<lambda>(r, tmpl, pos, rest, must). 2 * length rest + (if must then 0 else 1))",
      goal_cases)
    case 1
    then show ?case by simp
  next
    case (2 r tmpl pos rest must x2 skipped y b z e w rest' caps)
    then have "search_from r pos rest must = Some (skipped, b, (e, rest', caps))" by simp
    from search_from_pos[OF this] show ?case by (cases skipped) auto
  qed
qed

declare sub_loop.simps [simp del]

definition re_sub :: "rx \<times> nat \<Rightarrow> string \<Rightarrow> string \<Rightarrow> error + string" where
  "re_sub cp repl text =
     (case parse_template repl (snd cp) of
        Inl e \<Rightarrow> Inl e
      | Inr tmpl \<Rightarrow> Inr (sub_loop (fst cp) tmpl 0 text False))"

section \<open>patterns.py\<close>

text \<open>
  The pattern and the replacement of the \<open>re.sub\<close> call in \<open>wildcard_to_regex\<close>: the raw
  strings \<open>\\(.)\\\?\<close> and \<open>\1?\<close>.
\<close>

definition optional_pattern :: string where
  "optional_pattern =
     [backslash, backslash, CHR ''('', CHR ''.'', CHR '')'', backslash, backslash, backslash, CHR ''?'']"

definition optional_repl :: string where
  "optional_repl = [backslash, CHR ''1'', CHR ''?'']"

definition wildcard_to_regex :: "string \<Rightarrow> error + string" where
  "wildcard_to_regex pattern =
     (let escaped = re_escape pattern;
          escaped = replace escaped [backslash, CHR ''*''] ''.*'';
          escaped = replace escaped [backslash, CHR ''_''] ''.''
      in case re_compile optional_pattern of
           Inl e \<Rightarrow> Inl e
         | Inr cp \<Rightarrow>
             (case re_sub cp optional_repl escaped of
                Inl e \<Rightarrow> Inl e
              | Inr escaped \<Rightarrow> Inr (''^'' @ escaped @ ''$'')))"

definition parse_replacement_pattern :: "string \<Rightarrow> error + (string \<times> string)" where
  "parse_replacement_pattern pattern =
     (if \<not> contains pattern ''||'' then Inl InvalidReplacementPattern
      else case split_once pattern ''||'' of
             None \<Rightarrow> Inl InvalidReplacementPattern
           | Some (original, replacement) \<Rightarrow> Inr (strip original, strip replacement))"

text \<open>
  \<open>match_with_wildcards\<close>: the case-insensitive branch compiles with \<open>IGNORECASE\<close>, which
  is outside the fragment; the filters only ever call the default, case-sensitive one.
\<close>

definition match_with_wildcards :: "string \<Rightarrow> string \<Rightarrow> bool \<Rightarrow> error + bool" where
  "match_with_wildcards text pattern case_sensitive =
     (case wildcard_to_regex pattern of
        Inl e \<Rightarrow> Inl e
      | Inr regex_pattern \<Rightarrow>
          if \<not> case_sensitive then Inl NotModelled
          else (case re_compile regex_pattern of
                  Inl e \<Rightarrow> Inl e
                | Inr compiled_pattern \<Rightarrow> Inr (re_match compiled_pattern text)))"

definition substitute_with_capture :: "string \<Rightarrow> string \<Rightarrow> string \<Rightarrow> error + string" where
  "substitute_with_capture text pattern replacement =
     (case re_compile pattern of
        Inl e \<Rightarrow> Inl e
      | Inr compiled_pattern \<Rightarrow>
          (let python_replacement = replace replacement ''$'' [backslash]
           in re_sub compiled_pattern python_replacement text))"

section \<open>base.py: rules\<close>

datatype FilterType = PLAIN_KEYWORD | WILDCARD | REGEX | GROUP | REPLACE | REPLACE_CAPTURE

text \<open>
  The two rule classes are \<open>NamedTuple\<close>s: immutable, compared by value, and built without
  any check of their fields. The fields of \<open>GroupFilterRule\<close> carry the prefix \<open>group_\<close>
  where \<open>FilterRule\<close> has a field of the same name.
\<close>

record FilterRule =
  filter_type :: FilterType
  pattern :: string
  priority :: int
  replacement :: "string option"
  enabled :: bool
  description :: "string option"

record GroupFilterRule =
  group_filter_type :: FilterType
  patterns :: "string list"
  group_priority :: int
  group_enabled :: bool
  group_description :: "string option"

definition from_list :: "string list \<Rightarrow> int \<Rightarrow> bool \<Rightarrow> string option \<Rightarrow> GroupFilterRule" where
  "from_list ps prio en descr =
     \<lparr>group_filter_type = GROUP, patterns = ps, group_priority = prio,
      group_enabled = en, group_description = descr\<rparr>"

datatype AnyFilterRule = Single FilterRule | Group GroupFilterRule

fun rule_filter_type :: "AnyFilterRule \<Rightarrow> FilterType" where
  "rule_filter_type (Single r) = filter_type r"
| "rule_filter_type (Group g) = group_filter_type g"

fun rule_enabled :: "AnyFilterRule \<Rightarrow> bool" where
  "rule_enabled (Single r) = enabled r"
| "rule_enabled (Group g) = group_enabled g"

fun rule_priority :: "AnyFilterRule \<Rightarrow> int" where
  "rule_priority (Single r) = priority r"
| "rule_priority (Group g) = group_priority g"

section \<open>config.py: the validated group rule of the configuration layer\<close>

record GroupFilterRuleConfig =
  config_filter_type :: string
  config_patterns :: "string list"
  config_priority :: int
  config_enabled :: bool
  config_description :: "string option"

text \<open>
  Building a \<open>GroupFilterRuleConfig\<close> runs the three field validators; pydantic reports
  any failure as a \<open>ValidationError\<close>.
\<close>

definition validate_filter_type :: "string \<Rightarrow> error + string" where
  "validate_filter_type v = (if v \<noteq> ''group'' then Inl ValidationError else Inr v)"

definition validate_patterns :: "string list \<Rightarrow> error + string list" where
  "validate_patterns v = (if v = [] then Inl ValidationError else Inr v)"

definition validate_priority :: "int \<Rightarrow> error + int" where
  "validate_priority v = (if v < 0 then Inl ValidationError else Inr v)"

definition GroupFilterRuleConfig_init ::
  "string \<Rightarrow> string list \<Rightarrow> int \<Rightarrow> bool \<Rightarrow> string option \<Rightarrow> error + GroupFilterRuleConfig" where
  "GroupFilterRuleConfig_init ft ps prio en descr =
     (case (validate_filter_type ft, validate_patterns ps, validate_priority prio) of
        (Inr ft', Inr ps', Inr prio') \<Rightarrow>
          Inr \<lparr>config_filter_type = ft', config_patterns = ps', config_priority = prio',
               config_enabled = en, config_description = descr\<rparr>
      | _ \<Rightarrow> Inl ValidationError)"

definition to_group_filter_rule :: "GroupFilterRuleConfig \<Rightarrow> GroupFilterRule" where
  "to_group_filter_rule c =
     from_list (config_patterns c) (config_priority c) (config_enabled c) (config_description c)"

section \<open>filters.py\<close>

definition normalize_tag :: "string \<Rightarrow> string" where
  "normalize_tag tag = replace (lower (strip tag)) '' '' ''_''"

text \<open>
  A filter object holds its rule and what its constructor computed from it. The classes
  under \<open>BaseFilter\<close> look at one tag; \<open>GroupFilter\<close>, under \<open>BaseGroupFilter\<close>, looks at the
  whole list. \<open>PlainKeywordFilter\<close> and \<open>GroupFilter\<close> only store the rule they are given,
  of either class; the other constructors read \<open>rule.pattern\<close>.
\<close>

datatype BaseFilter =
    PlainKeywordFilter AnyFilterRule
  | WildcardFilter FilterRule string
  | RegexFilter FilterRule "rx \<times> nat"
  | ReplaceFilter FilterRule string string
  | ReplaceCaptureFilter FilterRule string string "rx \<times> nat"

datatype BaseGroupFilter = GroupFilter AnyFilterRule

datatype AnyFilter = Base BaseFilter | BaseGroup BaseGroupFilter

fun base_rule :: "BaseFilter \<Rightarrow> AnyFilterRule" where
  "base_rule (PlainKeywordFilter rule) = rule"
| "base_rule (WildcardFilter r rp) = Single r"
| "base_rule (RegexFilter r cp) = Single r"
| "base_rule (ReplaceFilter r orig repl) = Single r"
| "base_rule (ReplaceCaptureFilter r orig repl cp) = Single r"

fun filter_rule :: "AnyFilter \<Rightarrow> AnyFilterRule" where
  "filter_rule (Base f) = base_rule f"
| "filter_rule (BaseGroup (GroupFilter rule)) = rule"

definition is_enabled :: "AnyFilter \<Rightarrow> bool" where
  "is_enabled f = rule_enabled (filter_rule f)"

definition get_priority :: "AnyFilter \<Rightarrow> int" where
  "get_priority f = rule_priority (filter_rule f)"

text \<open>\<open>matches\<close> of the five single-tag classes.\<close>

fun matches :: "BaseFilter \<Rightarrow> string \<Rightarrow> error + bool" where
  "matches (PlainKeywordFilter rule) tag =
     (let normalized_tag = normalize_tag tag
      in case rule of
           Single r \<Rightarrow> Inr (contains normalized_tag (pattern r))
         | Group g \<Rightarrow> Inl AttributeError)"
| "matches (WildcardFilter r rp) tag = match_with_wildcards tag (pattern r) True"
| "matches (RegexFilter r cp) tag = Inr (re_search cp tag)"
| "matches (ReplaceFilter r orig repl) tag = Inr (tag = orig)"
| "matches (ReplaceCaptureFilter r orig repl cp) tag = Inr (re_search cp tag)"

text \<open>
  Every \<open>apply\<close> builds its result by going through the tags once, keeping, dropping or
  replacing each; an exception ends the loop. \<open>collect\<close> is that loop, \<open>step\<close> what a filter
  does with one tag: \<open>None\<close> drops it, \<open>Some t\<close> puts \<open>t\<close> into the result.
\<close>

fun collect :: "(string \<Rightarrow> error + string option) \<Rightarrow> string list \<Rightarrow> error + string list" where
  "collect stp [] = Inr []"
| "collect stp (tag # tags) =
     (case stp tag of
        Inl e \<Rightarrow> Inl e
      | Inr keep \<Rightarrow>
          (case collect stp tags of
             Inl e \<Rightarrow> Inl e
           | Inr res \<Rightarrow> Inr (case keep of None \<Rightarrow> res | Some t \<Rightarrow> t # res)))"

definition drop_step :: "BaseFilter \<Rightarrow> string \<Rightarrow> error + string option" where
  "drop_step f tag =
     (case matches f tag of Inl e \<Rightarrow> Inl e | Inr m \<Rightarrow> Inr (if m then None else Some tag))"

fun step :: "BaseFilter \<Rightarrow> string \<Rightarrow> error + string option" where
  "step (ReplaceFilter r orig repl) tag =
     (case matches (ReplaceFilter r orig repl) tag of
        Inl e \<Rightarrow> Inl e
      | Inr m \<Rightarrow> Inr (Some (if m then repl else tag)))"
| "step (ReplaceCaptureFilter r orig repl cp) tag =
     (case matches (ReplaceCaptureFilter r orig repl cp) tag of
        Inl e \<Rightarrow> Inl e
      | Inr m \<Rightarrow>
          if m then (case substitute_with_capture tag orig repl of
                       Inl e \<Rightarrow> Inl e
                     | Inr replaced \<Rightarrow> Inr (Some replaced))
          else Inr (Some tag))"
| "step f tag = drop_step f tag"

definition base_apply :: "BaseFilter \<Rightarrow> string list \<Rightarrow> error + string list" where
  "base_apply f tags =
     (if \<not> is_enabled (Base f) then Inr tags else collect (step f) tags)"

text \<open>\<open>GroupFilter\<close>: \<open>_matches_pattern\<close>, \<open>matches\<close> and \<open>apply\<close>.\<close>

definition matches_pattern :: "string \<Rightarrow> string \<Rightarrow> bool" where
  "matches_pattern tag p = (let normalized_tag = normalize_tag tag in contains normalized_tag p)"

definition group_matches :: "GroupFilterRule \<Rightarrow> string list \<Rightarrow> bool" where
  "group_matches g tags =
     list_all (\<lambda>p. list_ex (\<lambda>tag. matches_pattern tag p) tags) (patterns g)"

definition group_apply :: "BaseGroupFilter \<Rightarrow> string list \<Rightarrow> error + string list" where
  "group_apply f tags =
     (case f of GroupFilter rule \<Rightarrow>
        if \<not> rule_enabled rule then Inr tags
        else (case rule of
                Single r \<Rightarrow> Inl AttributeError
              | Group g \<Rightarrow>
                  if \<not> group_matches g tags then Inr tags
                  else Inr (filter (\<lambda>tag. \<not> list_ex (\<lambda>p. matches_pattern tag p) (patterns g)) tags)))"

fun apply_filter :: "AnyFilter \<Rightarrow> string list \<Rightarrow> error + string list" where
  "apply_filter (Base f) tags = base_apply f tags"
| "apply_filter (BaseGroup f) tags = group_apply f tags"

text \<open>
  \<open>FilterFactory\<close>: the registry is a class attribute that \<open>register_filter\<close> updates, so
  it is a parameter here. Its values are the six filter classes of the module.
\<close>

datatype filter_class =
    PlainKeywordFilter_class
  | WildcardFilter_class
  | RegexFilter_class
  | GroupFilter_class
  | ReplaceFilter_class
  | ReplaceCaptureFilter_class

type_synonym registry = "FilterType \<Rightarrow> filter_class option"

definition default_registry :: registry where
  "default_registry =
     [PLAIN_KEYWORD \<mapsto> PlainKeywordFilter_class,
      WILDCARD \<mapsto> WildcardFilter_class,
      REGEX \<mapsto> RegexFilter_class,
      GROUP \<mapsto> GroupFilter_class,
      REPLACE \<mapsto> ReplaceFilter_class,
      REPLACE_CAPTURE \<mapsto> ReplaceCaptureFilter_class]"

definition register_filter :: "registry \<Rightarrow> FilterType \<Rightarrow> filter_class \<Rightarrow> registry" where
  "register_filter reg ft cls = reg(ft \<mapsto> cls)"

text \<open>The constructors; reading \<open>rule.pattern\<close> of a group rule is an \<open>AttributeError\<close>.\<close>

fun construct :: "filter_class \<Rightarrow> AnyFilterRule \<Rightarrow> error + AnyFilter" where
  "construct PlainKeywordFilter_class rule = Inr (Base (PlainKeywordFilter rule))"
| "construct GroupFilter_class rule = Inr (BaseGroup (GroupFilter rule))"
| "construct cls (Group g) = Inl AttributeError"
| "construct WildcardFilter_class (Single r) =
     (case wildcard_to_regex (pattern r) of
        Inl e \<Rightarrow> Inl e
      | Inr rp \<Rightarrow> Inr (Base (WildcardFilter r rp)))"
| "construct RegexFilter_class (Single r) =
     (case re_compile (pattern r) of
        Inl e \<Rightarrow> Inl e
      | Inr cp \<Rightarrow> Inr (Base (RegexFilter r cp)))"
| "construct ReplaceFilter_class (Single r) =
     (case parse_replacement_pattern (pattern r) of
        Inl e \<Rightarrow> Inl e
      | Inr (orig, repl) \<Rightarrow> Inr (Base (ReplaceFilter r orig repl)))"
| "construct ReplaceCaptureFilter_class (Single r) =
     (case parse_replacement_pattern (pattern r) of
        Inl e \<Rightarrow> Inl e
      | Inr (orig, repl) \<Rightarrow>
          (case re_compile orig of
             Inl e \<Rightarrow> Inl e
           | Inr cp \<Rightarrow> Inr (Base (ReplaceCaptureFilter r orig repl cp))))"

definition create_filter :: "registry \<Rightarrow> AnyFilterRule \<Rightarrow> error + AnyFilter" where
  "create_filter reg rule =
     (case reg (rule_filter_type rule) of
        None \<Rightarrow> Inl UnknownFilterType
      | Some filter_class \<Rightarrow> construct filter_class rule)"

section \<open>engine.py\<close>

record TagFilterEngine =
  rules :: "AnyFilterRule list"
  filters :: "AnyFilter list"

text \<open>
  \<open>_create_filters\<close>: a \<open>ValueError\<close> from the factory is caught, printed as a warning and
  the rule is skipped; any other exception leaves the loop and the constructor. The
  second component of the result lists the warnings printed.
\<close>

fun create_filters :: "registry \<Rightarrow> AnyFilterRule list \<Rightarrow> error + (AnyFilter list \<times> error list)" where
  "create_filters reg [] = Inr ([], [])"
| "create_filters reg (rule # rs) =
     (if rule_enabled rule then
        (case create_filter reg rule of
           Inl e \<Rightarrow>
             if is_ValueError e then
               (case create_filters reg rs of
                  Inl e' \<Rightarrow> Inl e'
                | Inr (fs, warnings) \<Rightarrow> Inr (fs, e # warnings))
             else Inl e
         | Inr filter_instance \<Rightarrow>
             (case create_filters reg rs of
                Inl e' \<Rightarrow> Inl e'
              | Inr (fs, warnings) \<Rightarrow> Inr (filter_instance # fs, warnings)))
      else create_filters reg rs)"

text \<open>
  \<open>list.sort(key = get_priority, reverse = True)\<close> is stable: filters of equal priority
  stay in the order of their rules.
\<close>

definition sort_filters_by_priority :: "AnyFilter list \<Rightarrow> AnyFilter list" where
  "sort_filters_by_priority fs = sort_key (\<lambda>f. - get_priority f) fs"

definition TagFilterEngine_init :: "registry \<Rightarrow> AnyFilterRule list \<Rightarrow> error + TagFilterEngine" where
  "TagFilterEngine_init reg rs =
     (case create_filters reg rs of
        Inl e \<Rightarrow> Inl e
      | Inr (fs, warnings) \<Rightarrow> Inr \<lparr>rules = rs, filters = sort_filters_by_priority fs\<rparr>)"

text \<open>The loop of \<open>filter_tags\<close>, leaving as soon as no tag is left.\<close>

fun apply_filters :: "AnyFilter list \<Rightarrow> string list \<Rightarrow> error + string list" where
  "apply_filters [] current_tags = Inr current_tags"
| "apply_filters (filter_instance # fs) current_tags =
     (if is_enabled filter_instance then
        (case apply_filter filter_instance current_tags of
           Inl e \<Rightarrow> Inl e
         | Inr current_tags' \<Rightarrow>
             if current_tags' = [] then Inr current_tags' else apply_filters fs current_tags')
      else apply_filters fs current_tags)"

definition filter_tags :: "'a TagFilterEngine_scheme \<Rightarrow> string list \<Rightarrow> error + string list" where
  "filter_tags engine tags = (if tags = [] then Inr tags else apply_filters (filters engine) tags)"

definition get_filter_count :: "'a TagFilterEngine_scheme \<Rightarrow> nat" where
  "get_filter_count engine = length (filter is_enabled (filters engine))"

text \<open>
  \<open>OptimizedTagFilterEngine\<close>. The counters of \<open>Stats\<close> are Python integers; the float
  fields are modelled by real numbers, so a quotient below is the exact one that the
  Python float rounds. \<open>_precompile_patterns\<close> only fills the pattern cache and swallows
  every exception, so it changes nothing here.
\<close>

record Stats =
  total_processed :: int
  total_filtered :: int
  processing_time :: real
  filter_rate :: real
  avg_processing_time :: real

definition Stats_init :: Stats where
  "Stats_init = \<lparr>total_processed = 0, total_filtered = 0, processing_time = 0,
                 filter_rate = 0, avg_processing_time = 0\<rparr>"

record OptimizedTagFilterEngine = TagFilterEngine +
  batch_size :: int
  stats :: Stats

definition OptimizedTagFilterEngine_init ::
  "registry \<Rightarrow> AnyFilterRule list \<Rightarrow> int \<Rightarrow> error + OptimizedTagFilterEngine" where
  "OptimizedTagFilterEngine_init reg rs bs =
     (case TagFilterEngine_init reg rs of
        Inl e \<Rightarrow> Inl e
      | Inr engine \<Rightarrow>
          Inr \<lparr>rules = rules engine, filters = filters engine, batch_size = bs, stats = Stats_init\<rparr>)"

text \<open>
  \<open>filter_tags\<close> of the optimized engine; \<open>elapsed\<close> is the difference of the two
  \<open>perf_counter\<close> readings. When the inner call raises, the statistics are not touched.
\<close>

definition optimized_filter_tags ::
  "OptimizedTagFilterEngine \<Rightarrow> string list \<Rightarrow> real
     \<Rightarrow> error + (string list \<times> OptimizedTagFilterEngine)" where
  "optimized_filter_tags engine tags elapsed =
     (let original_count = int (length tags)
      in case filter_tags engine tags of
           Inl e \<Rightarrow> Inl e
         | Inr result \<Rightarrow>
             Inr (result,
                  engine\<lparr>stats := (stats engine)
                    \<lparr>total_processed := total_processed (stats engine) + original_count,
                     total_filtered := total_filtered (stats engine)
                        + (original_count - int (length result)),
                     processing_time := processing_time (stats engine) + elapsed\<rparr>\<rparr>))"

definition get_performance_stats :: "OptimizedTagFilterEngine \<Rightarrow> Stats" where
  "get_performance_stats engine =
     (let st = stats engine
      in if total_processed st > 0 then
           st\<lparr>filter_rate := real_of_int (total_filtered st) / real_of_int (total_processed st),
              avg_processing_time := processing_time st / real_of_int (total_processed st)\<rparr>
         else st\<lparr>filter_rate := 0, avg_processing_time := 0\<rparr>)"

definition reset_stats :: "OptimizedTagFilterEngine \<Rightarrow> OptimizedTagFilterEngine" where
  "reset_stats engine = engine\<lparr>stats := Stats_init\<rparr>"

text \<open>
  Repeated calls on one engine; each call comes with its tag list and its elapsed time.
\<close>

fun filter_tags_calls ::
  "OptimizedTagFilterEngine \<Rightarrow> (string list \<times> real) list
     \<Rightarrow> error + (string list list \<times> OptimizedTagFilterEngine)" where
  "filter_tags_calls engine [] = Inr ([], engine)"
| "filter_tags_calls engine ((tags, elapsed) # calls) =
     (case optimized_filter_tags engine tags elapsed of
        Inl e \<Rightarrow> Inl e
      | Inr (result, engine') \<Rightarrow>
          (case filter_tags_calls engine' calls of
             Inl e \<Rightarrow> Inl e
           | Inr (results, engine'') \<Rightarrow> Inr (result # results, engine'')))"

text \<open>\<open>MemoryEfficientFilterEngine\<close>: \<open>_should_keep_tag\<close> and \<open>filter_tags_stream\<close>.\<close>

fun is_replace :: "BaseFilter \<Rightarrow> bool" where
  "is_replace (ReplaceFilter r orig repl) = True"
| "is_replace (ReplaceCaptureFilter r orig repl cp) = True"
| "is_replace f = False"

fun should_keep_tag_loop :: "AnyFilter list \<Rightarrow> string \<Rightarrow> error + bool" where
  "should_keep_tag_loop [] tag = Inr True"
| "should_keep_tag_loop (filter_instance # fs) tag =
     (if \<not> is_enabled filter_instance then should_keep_tag_loop fs tag
      else (case filter_instance of
              BaseGroup g \<Rightarrow> should_keep_tag_loop fs tag
            | Base f \<Rightarrow>
                (case matches f tag of
                   Inl e \<Rightarrow> Inl e
                 | Inr m \<Rightarrow>
                     if m then (if is_replace f then Inr False else should_keep_tag_loop fs tag)
                     else should_keep_tag_loop fs tag)))"

definition should_keep_tag :: "'a TagFilterEngine_scheme \<Rightarrow> string \<Rightarrow> error + bool" where
  "should_keep_tag engine tag = should_keep_tag_loop (filters engine) tag"

fun filter_tags_stream :: "'a TagFilterEngine_scheme \<Rightarrow> string list \<Rightarrow> error + string list" where
  "filter_tags_stream engine [] = Inr []"
| "filter_tags_stream engine (tag # tags) =
     (case should_keep_tag engine tag of
        Inl e \<Rightarrow> Inl e
      | Inr keep \<Rightarrow>
          (case filter_tags_stream engine tags of
             Inl e \<Rightarrow> Inl e
           | Inr res \<Rightarrow> Inr (if keep then tag # res else res)))"

section \<open>Example inputs\<close>

definition steam_group :: GroupFilterRule where
  "steam_group = from_list [''steam'', ''sweat'', ''blush''] 0 True None"

definition nsfw_rule :: AnyFilterRule where
  "nsfw_rule = Single \<lparr>filter_type = PLAIN_KEYWORD, pattern = ''nsfw'', priority = 80,
     replacement = None, enabled = True, description = None\<rparr>"

definition hair_rule :: AnyFilterRule where
  "hair_rule = Single \<lparr>filter_type = WILDCARD, pattern = ''*_hair'', priority = 50,
     replacement = None, enabled = True, description = None\<rparr>"

definition bad_good_rule :: AnyFilterRule where
  "bad_good_rule = Single \<lparr>filter_type = REPLACE, pattern = ''bad||good'', priority = 40,
     replacement = None, enabled = True, description = None\<rparr>"

definition old_new_rule :: AnyFilterRule where
  "old_new_rule = Single \<lparr>filter_type = REPLACE_CAPTURE, pattern = ''(.*)_old||$1_new'',
     priority = 30, replacement = None, enabled = True, description = None\<rparr>"

text \<open>A registry from which the entry for \<open>GROUP\<close> has been taken away.\<close>

definition registry_without_group :: registry where
  "registry_without_group = default_registry(GROUP := None)"

definition stats_engine :: OptimizedTagFilterEngine where
  "stats_engine = \<lparr>rules = [nsfw_rule], filters = [Base (PlainKeywordFilter nsfw_rule)],
     batch_size = 1000, stats = Stats_init\<rparr>"




text \<open>
  For wildcard patterns made of literal characters and \<open>*\<close>: the regular expression text
  and the compiled items that \<open>wildcard_to_regex\<close> and \<open>re_compile\<close> are shown to produce,
  and what such a pattern accepts, stated without any regular expression: a literal
  character is itself, \<open>*\<close> is any run of characters other than newline, and the pattern
  must reach the end of the text or a final newline.
\<close>

definition wildcard_body :: "string \<Rightarrow> string" where
  "wildcard_body p = concat (map (\<lambda>c. if c = CHR ''*'' then ''.*'' else [c]) p)"

definition wildcard_items :: "string \<Rightarrow> rx list" where
  "wildcard_items p = map (\<lambda>c. if c = CHR ''*'' then Star Dot else Chr c) p"

fun wildcard_spec :: "string \<Rightarrow> string \<Rightarrow> bool" where
  "wildcard_spec [] t = (t = [] \<or> t = [newline])"
| "wildcard_spec (c # p) [] = (c = CHR ''*'' \<and> wildcard_spec p [])"
| "wildcard_spec (c # p) (x # xs) =
     (if c = CHR ''*''
      then wildcard_spec p (x # xs) \<or> (x \<noteq> newline \<and> wildcard_spec (c # p) xs)
      else x = c \<and> wildcard_spec p xs)"

text \<open>The compiled form of \<open>optional_pattern\<close>.\<close>

definition optional_cp :: "rx \<times> nat" where
  "optional_cp =
     (Seq (Chr backslash) (Seq (Grp 1 (Seq Dot Eps)) (Seq (Chr backslash) (Seq (Chr CHR ''?'') Eps))), 1)"

section \<open>Properties\<close>

subsection \<open>GroupFilter.apply is all-or-nothing\<close>

lemma group_matches_iff:
  "group_matches g tags =
     (\<forall>p \<in> set (patterns g). \<exists>tag \<in> set tags. contains (normalize_tag tag) p)"
  by (simp add: group_matches_def matches_pattern_def list_all_iff list_ex_iff)

lemma group_apply_enabled:
  assumes "group_enabled g"
  shows "group_apply (GroupFilter (Group g)) tags =
     Inr (if (\<forall>p \<in> set (patterns g). \<exists>tag \<in> set tags. contains (normalize_tag tag) p)
          then filter (\<lambda>tag. \<not> (\<exists>p \<in> set (patterns g). contains (normalize_tag tag) p)) tags
          else tags)"
proof (cases "group_matches g tags")
  case True
  with assms show ?thesis
    by (simp add: group_apply_def group_matches_iff[symmetric] matches_pattern_def list_ex_iff)
next
  case False
  with assms show ?thesis
    by (simp add: group_apply_def group_matches_iff[symmetric])
qed

lemma steam_missing:
  "group_apply (GroupFilter (Group steam_group)) [''steam'', ''hot'', ''other'']
     = Inr [''steam'', ''hot'', ''other'']"
  by code_simp

lemma steam_present:
  "group_apply (GroupFilter (Group steam_group)) [''steam'', ''sweat'', ''blush'', ''other'']
     = Inr [''other'']"
  by code_simp

text \<open>
  C5. For an enabled group rule and any tag list: when every pattern of the group occurs
  in the normalised form of some tag, \<open>apply\<close> returns the list without every tag whose
  normalised form contains one of the patterns; when some pattern occurs in no tag, it
  returns the list as it is. The patterns steam, sweat, blush leave
  \<open>[steam, hot, other]\<close> unchanged and turn \<open>[steam, sweat, blush, other]\<close> into \<open>[other]\<close>.
\<close>

theorem GroupFilter_apply_all_or_nothing:
  "(group_enabled g \<longrightarrow>
      group_apply (GroupFilter (Group g)) tags =
        Inr (if (\<forall>p \<in> set (patterns g). \<exists>tag \<in> set tags. contains (normalize_tag tag) p)
             then filter (\<lambda>tag. \<not> (\<exists>p \<in> set (patterns g). contains (normalize_tag tag) p)) tags
             else tags))
   \<and> group_apply (GroupFilter (Group steam_group)) [''steam'', ''hot'', ''other'']
        = Inr [''steam'', ''hot'', ''other'']
   \<and> group_apply (GroupFilter (Group steam_group)) [''steam'', ''sweat'', ''blush'', ''other'']
        = Inr [''other'']"
  using group_apply_enabled steam_missing steam_present by blast

theorem GroupFilter_apply_all_or_nothing_witness:
  "group_enabled steam_group
   \<and> group_apply (GroupFilter (Group steam_group)) [''a steam'', ''Sweat'', ''blush'', ''other'']
        = Inr [''other'']"
proof -
  have en: "group_enabled steam_group"
    by (simp add: steam_group_def from_list_def)
  have pres: "\<forall>p \<in> set (patterns steam_group).
         \<exists>tag \<in> set [''a steam'', ''Sweat'', ''blush'', ''other'']. contains (normalize_tag tag) p"
    by code_simp
  have rest: "filter (\<lambda>tag. \<not> (\<exists>p \<in> set (patterns steam_group). contains (normalize_tag tag) p))
      [''a steam'', ''Sweat'', ''blush'', ''other''] = [''other'']"
    by code_simp
  from GroupFilter_apply_all_or_nothing[of steam_group "[''a steam'', ''Sweat'', ''blush'', ''other'']"] en
  have "group_apply (GroupFilter (Group steam_group)) [''a steam'', ''Sweat'', ''blush'', ''other''] =
      Inr (if (\<forall>p \<in> set (patterns steam_group).
                 \<exists>tag \<in> set [''a steam'', ''Sweat'', ''blush'', ''other'']. contains (normalize_tag tag) p)
           then filter (\<lambda>tag. \<not> (\<exists>p \<in> set (patterns steam_group). contains (normalize_tag tag) p))
                  [''a steam'', ''Sweat'', ''blush'', ''other'']
           else [''a steam'', ''Sweat'', ''blush'', ''other''])"
    by blast
  then have "group_apply (GroupFilter (Group steam_group)) [''a steam'', ''Sweat'', ''blush'', ''other''] =
      Inr (filter (\<lambda>tag. \<not> (\<exists>p \<in> set (patterns steam_group). contains (normalize_tag tag) p))
                  [''a steam'', ''Sweat'', ''blush'', ''other''])"
    by (simp only: if_P[OF pres])
  then have "group_apply (GroupFilter (Group steam_group)) [''a steam'', ''Sweat'', ''blush'', ''other'']
      = Inr [''other'']"
    by (simp only: rest)
  with en show ?thesis by blast
qed

subsection \<open>The streaming decision of the memory-efficient engine\<close>

lemma should_keep_tag_loop_False:
  "should_keep_tag_loop fs tag = Inr False \<Longrightarrow>
     \<exists>f. Base f \<in> set fs \<and> is_enabled (Base f) \<and> is_replace f \<and> matches f tag = Inr True"
proof (induction fs)
  case Nil
  then show ?case by simp
next
  case (Cons x fs)
  then show ?case
    by (auto split: if_splits AnyFilter.splits sum.splits)
qed

lemma should_keep_tag_loop_no_replace:
  "\<forall>f. Base f \<in> set fs \<longrightarrow> \<not> is_replace f \<Longrightarrow> should_keep_tag_loop fs tag \<noteq> Inr False"
  using should_keep_tag_loop_False by blast

text \<open>
  C1. The claim: a tag is dropped exactly when an enabled single-tag filter that is no
  replacement filter matches it. The code returns \<open>False\<close> exactly in the branch of the
  replacement filters: with one plain-keyword rule the tag it matches is kept by the
  stream although \<open>filter_tags\<close> drops it, and with one replace rule the tag it matches is
  dropped by the stream although \<open>filter_tags\<close> replaces it.
\<close>

theorem should_keep_tag_inverted:
  "(case TagFilterEngine_init default_registry [nsfw_rule] of
      Inl e \<Rightarrow> None
    | Inr engine \<Rightarrow>
        Some (filter_tags engine [''nsfw''], should_keep_tag engine ''nsfw'',
              filter_tags_stream engine [''nsfw'']))
     = Some (Inr [], Inr True, Inr [''nsfw''])
   \<and> (case TagFilterEngine_init default_registry [bad_good_rule] of
      Inl e \<Rightarrow> None
    | Inr engine \<Rightarrow>
        Some (filter_tags engine [''bad''], should_keep_tag engine ''bad'',
              filter_tags_stream engine [''bad'']))
     = Some (Inr [''good''], Inr False, Inr [])"
  by code_simp

subsection \<open>Empty group rules\<close>

text \<open>
  C6, as stated: building a group rule with no pattern fails. It does not: \<open>from_list []\<close>
  is a rule, the factory makes a filter of it, and that filter leaves every list as it is.
\<close>

theorem from_list_accepts_empty:
  "patterns (from_list [] 0 True None) = []
   \<and> create_filter default_registry (Group (from_list [] 0 True None))
       = Inr (BaseGroup (GroupFilter (Group (from_list [] 0 True None))))
   \<and> group_apply (GroupFilter (Group (from_list [] 0 True None))) [''a'', ''b''] = Inr [''a'', ''b'']"
  by code_simp

text \<open>
  C6, amended. \<open>GroupFilterRule\<close> and \<open>from_list\<close> accept every pattern list, the empty
  one too; it is the configuration layer that rejects a group without patterns:
  \<open>GroupFilterRuleConfig\<close> fails to validate, so a rule that comes out of
  \<open>to_group_filter_rule\<close> has at least one pattern.
\<close>

theorem empty_group_rejected_by_config:
  "patterns (from_list ps prio en descr) = ps
   \<and> GroupFilterRuleConfig_init ft [] prio en descr = Inl ValidationError
   \<and> (\<forall>c. GroupFilterRuleConfig_init ft ps prio en descr = Inr c \<longrightarrow>
          ps \<noteq> [] \<and> patterns (to_group_filter_rule c) = ps)"
  by (auto simp: from_list_def GroupFilterRuleConfig_init_def validate_patterns_def
      validate_filter_type_def validate_priority_def to_group_filter_rule_def
      split: if_splits)

theorem empty_group_rejected_by_config_witness:
  "GroupFilterRuleConfig_init ''group'' [''steam''] 0 True None
     = Inr \<lparr>config_filter_type = ''group'', config_patterns = [''steam''], config_priority = 0,
           config_enabled = True, config_description = None\<rparr>
   \<and> patterns (to_group_filter_rule \<lparr>config_filter_type = ''group'', config_patterns = [''steam''],
         config_priority = 0, config_enabled = True, config_description = None\<rparr>) = [''steam'']
   \<and> GroupFilterRuleConfig_init ''group'' [] 0 True None = Inl ValidationError"
proof -
  have mk: "GroupFilterRuleConfig_init ''group'' [''steam''] 0 True None
     = Inr \<lparr>config_filter_type = ''group'', config_patterns = [''steam''], config_priority = 0,
           config_enabled = True, config_description = None\<rparr>"
    by (simp add: GroupFilterRuleConfig_init_def validate_patterns_def
        validate_filter_type_def validate_priority_def)
  from empty_group_rejected_by_config[of "[''steam'']" 0 True None "''group''"] mk
  show ?thesis by blast
qed

subsection \<open>Unknown filter kinds\<close>

lemma create_filter_unknown:
  "reg (rule_filter_type rule) = None \<Longrightarrow> create_filter reg rule = Inl UnknownFilterType"
  by (simp add: create_filter_def)

lemma create_filters_without_unknown:
  "map_sum id fst (create_filters reg rs) =
   map_sum id fst (create_filters reg (filter (\<lambda>r. reg (rule_filter_type r) \<noteq> None) rs))"
proof (induction rs)
  case Nil
  then show ?case by simp
next
  case (Cons r rs)
  show ?case
  proof (cases "reg (rule_filter_type r) = None")
    case True
    then have "create_filter reg r = Inl UnknownFilterType" by (rule create_filter_unknown)
    with True Cons.IH show ?thesis
      by (cases "create_filters reg rs") (auto split: sum.splits)
  next
    case False
    with Cons.IH show ?thesis
      by (cases "create_filters reg rs";
          cases "create_filters reg (filter (\<lambda>r. reg (rule_filter_type r) \<noteq> None) rs)")
         (auto split: sum.splits)
  qed
qed

lemma create_filters_all_valid:
  assumes "\<forall>r \<in> set rs. rule_enabled r \<and> reg (rule_filter_type r) \<noteq> None
             \<longrightarrow> (\<exists>f. create_filter reg r = Inr f)"
  shows "create_filters reg rs =
     Inr (map (\<lambda>r. projr (create_filter reg r))
            (filter (\<lambda>r. rule_enabled r \<and> reg (rule_filter_type r) \<noteq> None) rs),
          map (\<lambda>r. UnknownFilterType)
            (filter (\<lambda>r. rule_enabled r \<and> reg (rule_filter_type r) = None) rs))"
  using assms
proof (induction rs)
  case Nil
  then show ?case by simp
next
  case (Cons r rs)
  then have IH: "create_filters reg rs =
     Inr (map (\<lambda>r. projr (create_filter reg r))
            (filter (\<lambda>r. rule_enabled r \<and> reg (rule_filter_type r) \<noteq> None) rs),
          map (\<lambda>r. UnknownFilterType)
            (filter (\<lambda>r. rule_enabled r \<and> reg (rule_filter_type r) = None) rs))"
    by simp
  show ?case
  proof (cases "rule_enabled r")
    case False
    with IH show ?thesis by simp
  next
    case en: True
    show ?thesis
    proof (cases "reg (rule_filter_type r) = None")
      case True
      with en IH create_filter_unknown[of reg r, OF True] show ?thesis by simp
    next
      case False
      with en Cons.prems obtain f where "create_filter reg r = Inr f" by auto
      with en False IH show ?thesis by simp
    qed
  qed
qed

text \<open>
  C7. For a rule whose \<open>filter_type\<close> the registry does not hold, \<open>create_filter\<close> fails
  with the \<open>ValueError\<close> "Unknown filter type". Construction of the engine catches it rule
  by rule: the filters built, and whether construction ends normally at all, are those of
  the rule sequence without the rules of unknown kind; and when every enabled rule of a
  known kind can be built, construction ends normally with one filter for each of them,
  in priority order, and one warning for each enabled rule of unknown kind.
\<close>

theorem unknown_filter_kind_is_skipped:
  "(reg (rule_filter_type rule) = None \<longrightarrow>
      create_filter reg rule = Inl UnknownFilterType \<and> is_ValueError UnknownFilterType)
   \<and> map_sum id fst (create_filters reg rs) =
       map_sum id fst (create_filters reg (filter (\<lambda>r. reg (rule_filter_type r) \<noteq> None) rs))
   \<and> ((\<forall>r \<in> set rs. rule_enabled r \<and> reg (rule_filter_type r) \<noteq> None
             \<longrightarrow> (\<exists>f. create_filter reg r = Inr f)) \<longrightarrow>
        create_filters reg rs =
          Inr (map (\<lambda>r. projr (create_filter reg r))
                 (filter (\<lambda>r. rule_enabled r \<and> reg (rule_filter_type r) \<noteq> None) rs),
               map (\<lambda>r. UnknownFilterType)
                 (filter (\<lambda>r. rule_enabled r \<and> reg (rule_filter_type r) = None) rs))
        \<and> TagFilterEngine_init reg rs =
          Inr \<lparr>rules = rs,
               filters = sort_filters_by_priority
                 (map (\<lambda>r. projr (create_filter reg r))
                    (filter (\<lambda>r. rule_enabled r \<and> reg (rule_filter_type r) \<noteq> None) rs))\<rparr>)"
proof (intro conjI impI)
  assume "reg (rule_filter_type rule) = None"
  then show "create_filter reg rule = Inl UnknownFilterType" by (rule create_filter_unknown)
next
  show "is_ValueError UnknownFilterType" by simp
next
  show "map_sum id fst (create_filters reg rs) =
       map_sum id fst (create_filters reg (filter (\<lambda>r. reg (rule_filter_type r) \<noteq> None) rs))"
    by (rule create_filters_without_unknown)
next
  assume a: "\<forall>r \<in> set rs. rule_enabled r \<and> reg (rule_filter_type r) \<noteq> None
             \<longrightarrow> (\<exists>f. create_filter reg r = Inr f)"
  from create_filters_all_valid[OF a]
  show "create_filters reg rs =
          Inr (map (\<lambda>r. projr (create_filter reg r))
                 (filter (\<lambda>r. rule_enabled r \<and> reg (rule_filter_type r) \<noteq> None) rs),
               map (\<lambda>r. UnknownFilterType)
                 (filter (\<lambda>r. rule_enabled r \<and> reg (rule_filter_type r) = None) rs))" .
  then show "TagFilterEngine_init reg rs =
          Inr \<lparr>rules = rs,
               filters = sort_filters_by_priority
                 (map (\<lambda>r. projr (create_filter reg r))
                    (filter (\<lambda>r. rule_enabled r \<and> reg (rule_filter_type r) \<noteq> None) rs))\<rparr>"
    by (simp add: TagFilterEngine_init_def)
qed

lemma witness_rules_valid:
  "create_filter registry_without_group nsfw_rule = Inr (Base (PlainKeywordFilter nsfw_rule))"
  "create_filter registry_without_group (Group steam_group) = Inl UnknownFilterType"
  "create_filter registry_without_group hair_rule =
     Inr (Base (WildcardFilter \<lparr>filter_type = WILDCARD, pattern = ''*_hair'', priority = 50,
       replacement = None, enabled = True, description = None\<rparr> ''^.*_hair$''))"
  by code_simp+

theorem unknown_filter_kind_is_skipped_witness:
  "registry_without_group (rule_filter_type (Group steam_group)) = None
   \<and> create_filter registry_without_group (Group steam_group) = Inl UnknownFilterType
   \<and> TagFilterEngine_init registry_without_group [hair_rule, Group steam_group, nsfw_rule] =
       Inr \<lparr>rules = [hair_rule, Group steam_group, nsfw_rule],
            filters = [Base (PlainKeywordFilter nsfw_rule),
              Base (WildcardFilter \<lparr>filter_type = WILDCARD, pattern = ''*_hair'', priority = 50,
                replacement = None, enabled = True, description = None\<rparr> ''^.*_hair$'')]\<rparr>"
proof -
  let ?rs = "[hair_rule, Group steam_group, nsfw_rule]"
  have unk: "registry_without_group (rule_filter_type (Group steam_group)) = None"
    by (simp add: registry_without_group_def steam_group_def from_list_def)
  have valid: "\<forall>r \<in> set ?rs. rule_enabled r \<and> registry_without_group (rule_filter_type r) \<noteq> None
             \<longrightarrow> (\<exists>f. create_filter registry_without_group r = Inr f)"
    using unk by (simp add: witness_rules_valid)
  have sel: "filter (\<lambda>r. rule_enabled r \<and> registry_without_group (rule_filter_type r) \<noteq> None) ?rs
      = [hair_rule, nsfw_rule]"
    by code_simp
  have srt: "sort_filters_by_priority
      [Base (WildcardFilter \<lparr>filter_type = WILDCARD, pattern = ''*_hair'', priority = 50,
                replacement = None, enabled = True, description = None\<rparr> ''^.*_hair$''),
       Base (PlainKeywordFilter nsfw_rule)]
     = [Base (PlainKeywordFilter nsfw_rule),
        Base (WildcardFilter \<lparr>filter_type = WILDCARD, pattern = ''*_hair'', priority = 50,
                replacement = None, enabled = True, description = None\<rparr> ''^.*_hair$'')]"
    by (simp add: sort_filters_by_priority_def get_priority_def nsfw_rule_def)
  from unknown_filter_kind_is_skipped[of registry_without_group "Group steam_group" ?rs] unk valid
  have "create_filter registry_without_group (Group steam_group) = Inl UnknownFilterType"
    and "TagFilterEngine_init registry_without_group ?rs =
          Inr \<lparr>rules = ?rs,
               filters = sort_filters_by_priority
                 (map (\<lambda>r. projr (create_filter registry_without_group r))
                    (filter (\<lambda>r. rule_enabled r \<and> registry_without_group (rule_filter_type r) \<noteq> None) ?rs))\<rparr>"
    by blast+
  with unk show ?thesis
    by (simp only: sel list.map witness_rules_valid sum.sel srt simp_thms)
qed

subsection \<open>Statistics of the optimized engine\<close>

lemma optimized_init_stats:
  "OptimizedTagFilterEngine_init reg rs bs = Inr engine \<Longrightarrow> stats engine = Stats_init"
  by (auto simp: OptimizedTagFilterEngine_init_def split: sum.splits)

lemma optimized_filter_tags_stats:
  assumes "optimized_filter_tags engine tags elapsed = Inr (result, engine')"
  shows "total_processed (stats engine') = total_processed (stats engine) + int (length tags)"
    and "total_filtered (stats engine') =
           total_filtered (stats engine) + (int (length tags) - int (length result))"
    and "processing_time (stats engine') = processing_time (stats engine) + elapsed"
    and "filter_tags engine tags = Inr result"
    and "filters engine' = filters engine"
  using assms
  by (auto simp: optimized_filter_tags_def Let_def split: sum.splits)

lemma filter_tags_calls_stats:
  "filter_tags_calls engine calls = Inr (results, engine') \<Longrightarrow>
     total_processed (stats engine') =
       total_processed (stats engine) + (\<Sum>c \<leftarrow> calls. int (length (fst c)))
     \<and> total_filtered (stats engine') =
       total_filtered (stats engine) + (\<Sum>c \<leftarrow> calls. int (length (fst c)))
         - (\<Sum>r \<leftarrow> results. int (length r))
     \<and> length results = length calls"
proof (induction calls arbitrary: engine results)
  case Nil
  then show ?case by simp
next
  case (Cons c calls)
  obtain tags elapsed where c: "c = (tags, elapsed)" by (cases c)
  from Cons.prems c obtain result mid rest where
    one: "optimized_filter_tags engine tags elapsed = Inr (result, mid)" and
    more: "filter_tags_calls mid calls = Inr (rest, engine')" and
    res: "results = result # rest"
    by (auto split: sum.splits)
  from Cons.IH[OF more] optimized_filter_tags_stats(1,2)[OF one] c res
  show ?case by simp
qed

lemma get_performance_stats_rates:
  "filter_rate (get_performance_stats engine) =
     (if 0 < total_processed (stats engine)
      then real_of_int (total_filtered (stats engine)) / real_of_int (total_processed (stats engine))
      else 0)"
  "avg_processing_time (get_performance_stats engine) =
     (if 0 < total_processed (stats engine)
      then processing_time (stats engine) / real_of_int (total_processed (stats engine))
      else 0)"
  "total_processed (get_performance_stats engine) = total_processed (stats engine)"
  "total_filtered (get_performance_stats engine) = total_filtered (stats engine)"
  by (simp_all add: get_performance_stats_def Let_def)

text \<open>
  C9. A new optimized engine has \<open>total_processed\<close> and \<open>total_filtered\<close> zero. A call of
  \<open>filter_tags\<close> that returns adds the length of its input to the first and the number of
  tags removed to the second, so over a sequence of calls they are the sums.
  \<open>get_performance_stats\<close> reports \<open>total_filtered / total_processed\<close> as \<open>filter_rate\<close>,
  and 0 for \<open>filter_rate\<close> and \<open>avg_processing_time\<close> when nothing has been processed.
  The quotient is the exact one; Python returns the float nearest to it.
\<close>

theorem optimized_stats_accumulate:
  "(OptimizedTagFilterEngine_init reg rs bs = Inr engine0 \<longrightarrow>
      total_processed (stats engine0) = 0 \<and> total_filtered (stats engine0) = 0)
   \<and> (optimized_filter_tags engine tags elapsed = Inr (result, engine1) \<longrightarrow>
        total_processed (stats engine1) = total_processed (stats engine) + int (length tags)
        \<and> total_filtered (stats engine1) =
            total_filtered (stats engine) + (int (length tags) - int (length result)))
   \<and> (filter_tags_calls engine calls = Inr (results, engine2) \<longrightarrow>
        total_processed (stats engine2) =
          total_processed (stats engine) + (\<Sum>c \<leftarrow> calls. int (length (fst c)))
        \<and> total_filtered (stats engine2) =
          total_filtered (stats engine) + (\<Sum>c \<leftarrow> calls. int (length (fst c)))
            - (\<Sum>r \<leftarrow> results. int (length r)))
   \<and> filter_rate (get_performance_stats engine) =
        (if 0 < total_processed (stats engine)
         then real_of_int (total_filtered (stats engine)) / real_of_int (total_processed (stats engine))
         else 0)
   \<and> (total_processed (stats engine) = 0 \<longrightarrow>
        filter_rate (get_performance_stats engine) = 0
        \<and> avg_processing_time (get_performance_stats engine) = 0)"
proof (intro conjI impI)
  assume "OptimizedTagFilterEngine_init reg rs bs = Inr engine0"
  from optimized_init_stats[OF this]
  show "total_processed (stats engine0) = 0" "total_filtered (stats engine0) = 0"
    by (simp_all add: Stats_init_def)
next
  assume a: "optimized_filter_tags engine tags elapsed = Inr (result, engine1)"
  from optimized_filter_tags_stats(1,2)[OF a]
  show "total_processed (stats engine1) = total_processed (stats engine) + int (length tags)"
    "total_filtered (stats engine1) =
       total_filtered (stats engine) + (int (length tags) - int (length result))"
    by simp_all
next
  assume a: "filter_tags_calls engine calls = Inr (results, engine2)"
  from filter_tags_calls_stats[OF a]
  show "total_processed (stats engine2) =
          total_processed (stats engine) + (\<Sum>c \<leftarrow> calls. int (length (fst c)))"
    "total_filtered (stats engine2) =
          total_filtered (stats engine) + (\<Sum>c \<leftarrow> calls. int (length (fst c)))
            - (\<Sum>r \<leftarrow> results. int (length r))"
    by simp_all
next
  show "filter_rate (get_performance_stats engine) =
        (if 0 < total_processed (stats engine)
         then real_of_int (total_filtered (stats engine)) / real_of_int (total_processed (stats engine))
         else 0)"
    by (rule get_performance_stats_rates)
next
  assume "total_processed (stats engine) = 0"
  then show "filter_rate (get_performance_stats engine) = 0"
    "avg_processing_time (get_performance_stats engine) = 0"
    by (simp_all add: get_performance_stats_rates)
qed

lemma stats_engine_init:
  "OptimizedTagFilterEngine_init default_registry [nsfw_rule] 1000 = Inr stats_engine"
  by code_simp

lemma stats_engine_calls:
  "map_sum id fst (filter_tags_calls stats_engine
      [([''nsfw'', ''smile'', ''nsfw_art''], 1::real), ([''hat''], 2)]) = Inr [[''smile''], [''hat'']]"
  by code_simp

theorem optimized_stats_accumulate_witness:
  "OptimizedTagFilterEngine_init default_registry [nsfw_rule] 1000 = Inr stats_engine
   \<and> total_processed (stats stats_engine) = 0
   \<and> (\<exists>engine2. filter_tags_calls stats_engine
          [([''nsfw'', ''smile'', ''nsfw_art''], 1::real), ([''hat''], 2)]
            = Inr ([[''smile''], [''hat'']], engine2)
        \<and> total_processed (stats engine2) = 4
        \<and> total_filtered (stats engine2) = 2
        \<and> filter_rate (get_performance_stats engine2) = 1 / 2)"
proof -
  let ?calls = "[([''nsfw'', ''smile'', ''nsfw_art''], 1::real), ([''hat''], 2)]"
  from stats_engine_calls obtain engine2 where
    run: "filter_tags_calls stats_engine ?calls = Inr ([[''smile''], [''hat'']], engine2)"
    by (cases "filter_tags_calls stats_engine ?calls") auto
  have zero: "total_processed (stats stats_engine) = 0" "total_filtered (stats stats_engine) = 0"
    using optimized_stats_accumulate[of default_registry "[nsfw_rule]" 1000 stats_engine]
      stats_engine_init by blast+
  from optimized_stats_accumulate[of _ _ _ _ stats_engine _ _ _ _ ?calls "[[''smile''], [''hat'']]" engine2] run
  have tp: "total_processed (stats engine2) =
          total_processed (stats stats_engine) + (\<Sum>c \<leftarrow> ?calls. int (length (fst c)))"
    and tf: "total_filtered (stats engine2) =
          total_filtered (stats stats_engine) + (\<Sum>c \<leftarrow> ?calls. int (length (fst c)))
            - (\<Sum>r \<leftarrow> [[''smile''], [''hat'']]. int (length r))"
    by blast+
  from tp tf zero have v: "total_processed (stats engine2) = 4" "total_filtered (stats engine2) = 2"
    by simp_all
  have "filter_rate (get_performance_stats engine2) = 1 / 2"
    using optimized_stats_accumulate[of _ _ _ _ engine2] v by simp
  with run v zero stats_engine_init show ?thesis by blast
qed

subsection \<open>Idempotence of drop-only engines\<close>















subsection \<open>Patterns of literal characters\<close>



















end
